theory Spec2Isabelle
  imports Main "HOL-Library.Word"
begin

section \<open>Values shared by the whole development\<close>

text \<open>
  A Go \<open>error\<close> is an interface value: \<open>nil\<close> (\<open>None\<close>) or an error carrying a
  message (\<open>Some msg\<close>). Go's \<open>int\<close> is taken at 64 bits; no operation below does
  arithmetic on it.
\<close>

type_synonym goerror = "string option"

type_synonym goint = "64 word"

text \<open>A call either returns its results or unwinds with a panic.\<close>

datatype 'a outcome = Return 'a | Panicked string

section \<open>package service: \<open>basicHelloService\<close>\<close>

text \<open>
  \<open>SayHi\<close> has the named results \<open>reply string\<close> and \<open>err error\<close>. The body is a
  TODO comment followed by \<open>return reply, err\<close>: both results still hold the zero value
  of their type.
\<close>

definition SayHi :: "'ctx \<Rightarrow> string \<Rightarrow> string \<Rightarrow> string \<times> goerror" where
  "SayHi ctx name say = (let reply = ''''; err = None in (reply, err))"

section \<open>package endpoint: \<open>AddSvcEndpoints\<close>\<close>

text \<open>
  An endpoint takes and returns \<open>interface{}\<close>. The dynamic values that matter here are
  \<open>nil\<close>, the request and response structs of the two operations, and values of any
  other dynamic type (named by that type). The response structs are declared outside the
  two methods; only their field \<open>V\<close> is read, so the remaining fields are the
  parameter \<open>'x\<close>.
\<close>

datatype 'x dyn =
    NilV
  | SumRequestV goint goint
  | ConcatRequestV string string
  | SumResponseV goint 'x
  | ConcatResponseV string 'x
  | OtherV string

type_synonym ('ctx, 'x) endpoint = "'ctx \<Rightarrow> 'x dyn \<Rightarrow> 'x dyn \<times> goerror"

record ('ctx, 'x) AddSvcEndpoints =
  SumEndpoint :: "('ctx, 'x) endpoint"
  ConcatEndpoint :: "('ctx, 'x) endpoint"

text \<open>
  \<open>resp.(SumResponse)\<close> is the single-result form of the type assertion: it panics when
  the dynamic type of \<open>resp\<close> is not \<open>SumResponse\<close>, a nil interface included. The
  assertion is evaluated before \<open>err\<close> is looked at.
\<close>

definition AddSvcEndpoints_Sum :: "('ctx, 'x) AddSvcEndpoints \<Rightarrow> 'ctx \<Rightarrow> goint \<Rightarrow> goint \<Rightarrow> (goint \<times> goerror) outcome" where
  "AddSvcEndpoints_Sum e ctx a b =
     (let (resp, err) = SumEndpoint e ctx (SumRequestV a b) in
      case resp of
        SumResponseV v x \<Rightarrow> Return (v, err)
      | _ \<Rightarrow> Panicked ''interface conversion: interface {} is not endpoint.SumResponse'')"

definition AddSvcEndpoints_Concat :: "('ctx, 'x) AddSvcEndpoints \<Rightarrow> 'ctx \<Rightarrow> string \<Rightarrow> string \<Rightarrow> (string \<times> goerror) outcome" where
  "AddSvcEndpoints_Concat e ctx a b =
     (let (resp, err) = ConcatEndpoint e ctx (ConcatRequestV a b) in
      case resp of
        ConcatResponseV v x \<Rightarrow> Return (v, err)
      | _ \<Rightarrow> Panicked ''interface conversion: interface {} is not endpoint.ConcatResponse'')"

section \<open>package main: the observable world\<close>

text \<open>
  The effects of \<open>main\<close> that the properties speak about, in the order they happen.
  A value handed to \<open>logger.Log\<close> is a string, an \<open>error\<close> variable or the untyped
  \<open>nil\<close>. Durations are in nanoseconds, as \<open>time.Duration\<close> is.
\<close>

datatype logval = LStr string | LErr goerror | LNil

datatype effect =
    Log "logval list"
  | HttpShutdown nat
  | GrpcGracefulStop
  | ConsulDeregister
  | RegisterAddServer
  | RegisterHealthServer

text \<open>
  The world: the shared context \<open>shareCtx\<close> (whether it is done, and how often it went
  from running to cancelled) and the effects so far.
\<close>

record world =
  ctx_done :: bool
  ctx_transitions :: nat
  effects :: "effect list"

definition emit :: "effect \<Rightarrow> world \<Rightarrow> world" where
  "emit x w = w\<lparr>effects := effects w @ [x]\<rparr>"

definition Second :: nat where
  "Second = 1000000000"

text \<open>
  The package-level variables: \<open>shareCtx, cancelCtx = context.WithCancel(context.Background())\<close>.
  The context starts running; its cancel function cancels it, and by the contract of
  \<open>context.CancelFunc\<close> every call after the first does nothing.
\<close>

definition init_world :: world where
  "init_world = \<lparr>ctx_done = False, ctx_transitions = 0, effects = []\<rparr>"

definition cancelCtx :: "world \<Rightarrow> world" where
  "cancelCtx w =
     (if ctx_done w then w
      else w\<lparr>ctx_done := True, ctx_transitions := Suc (ctx_transitions w)\<rparr>)"

text \<open>The closure \<open>stopAllTaskFunc\<close> of \<open>main\<close>.\<close>

definition stopAllTaskFunc :: "goerror \<Rightarrow> world \<Rightarrow> world" where
  "stopAllTaskFunc err w =
     (let w1 = (if err \<noteq> None
                then emit (Log [LStr ''func'', LStr ''stopAllTaskFunc'', LStr ''err'', LErr err]) w
                else w)
      in cancelCtx w1)"

text \<open>
  What the environment answers to the calls the program makes: \<open>net.Listen\<close> per
  address, the two \<open>Serve\<close> calls (\<open>None\<close>: the call never returns) and
  \<open>httpSrv.Shutdown\<close>.
\<close>

record env =
  net_Listen :: "string \<Rightarrow> goerror"
  httpSrv_Serve :: "goerror option"
  grpcSrv_Serve :: "goerror option"
  httpSrv_Shutdown :: goerror

subsection \<open>The signal listener\<close>

text \<open>
  The first closure given to \<open>AddDo\<close>. It makes the unbuffered channel \<open>sc\<close>,
  subscribes it to SIGINT and SIGTERM with \<open>signal.Notify\<close>, and then selects on \<open>sc\<close>
  and \<open>ctx.Done()\<close>. The task is at one of three points: before \<open>signal.Notify\<close> has
  returned, between \<open>signal.Notify\<close> and the select, or waiting in the select. Beside
  the point, the state holds whether the context is done: a cancellation stays visible.

  What happens to the task is a sequence of happenings: a signal arrives at the process,
  the context is cancelled, or the task's goroutine advances to its next point.
  \<^item> The signal package sends to \<open>sc\<close> without blocking. As \<open>sc\<close> has no buffer, a
    subscribed signal is received only if the task is waiting in the select; one that
    arrives between \<open>signal.Notify\<close> and the select is dropped.
  \<^item> A signal that no channel of the process is subscribed to gets Go's default action:
    SIGHUP, SIGINT and SIGTERM make the process exit, SIGQUIT makes it exit with a stack
    dump, other signals (SIGUSR1) are caught and nothing is done. The parameter
    \<open>elsewhere\<close> holds the signals that other code of the process has subscribed to.
  \<^item> Reaching the select with the context done, the task takes the \<open>ctx.Done()\<close> case.
  \<open>%v\<close> prints a signal by its \<open>String\<close> method.
\<close>

datatype signal = SIGHUP | SIGINT | SIGQUIT | SIGUSR1 | SIGTERM

fun signal_String :: "signal \<Rightarrow> string" where
  "signal_String SIGHUP = ''hangup''"
| "signal_String SIGINT = ''interrupt''"
| "signal_String SIGQUIT = ''quit''"
| "signal_String SIGUSR1 = ''user defined signal 1''"
| "signal_String SIGTERM = ''terminated''"

fun default_exits :: "signal \<Rightarrow> bool" where
  "default_exits SIGUSR1 = False"
| "default_exits s = True"

definition notified :: "signal \<Rightarrow> bool" where
  "notified s = (s = SIGINT \<or> s = SIGTERM)"

datatype point = Before_Notify | Before_select | In_select

datatype listener = Running point bool | Returned goerror | Process_exits signal

datatype happening = Arrives signal | Cancel | Advance

fun listen_step :: "(signal \<Rightarrow> bool) \<Rightarrow> listener \<Rightarrow> happening \<Rightarrow> listener" where
  "listen_step elsewhere (Running pt done) (Arrives s) =
     (if pt \<noteq> Before_Notify \<and> notified s then
        (if pt = In_select then Returned (Some (''recv-signal:'' @ signal_String s))
         else Running pt done)
      else if elsewhere s then Running pt done
      else if default_exits s then Process_exits s
      else Running pt done)"
| "listen_step elsewhere (Running pt done) Cancel =
     (if pt = In_select then Returned None else Running pt True)"
| "listen_step elsewhere (Running pt done) Advance =
     (case pt of
        Before_Notify \<Rightarrow> Running Before_select done
      | Before_select \<Rightarrow> (if done then Returned None else Running In_select done)
      | In_select \<Rightarrow> Running In_select done)"
| "listen_step elsewhere l h = l"

definition signalTask :: "(signal \<Rightarrow> bool) \<Rightarrow> happening list \<Rightarrow> listener" where
  "signalTask elsewhere hs = foldl (listen_step elsewhere) (Running Before_Notify False) hs"

subsection \<open>The listener tasks\<close>

text \<open>A task's run function returns an error, unwinds with a panic, or never returns.\<close>

datatype task_result = Exits goerror | Panics string | Never_returns

text \<open>
  Modelled from the spec: \<open>_util.PanicIfErr\<close>, the "panic if error" helper of the task
  bodies ("Panic-based fatal error signaling inside task bodies"); its source is not
  part of the files at hand. It panics with a non-nil error and returns otherwise. Its
  second argument is \<open>nil\<close> at both call sites.
\<close>

definition PanicIfErr :: "goerror \<Rightarrow> unit outcome" where
  "PanicIfErr err = (case err of None \<Rightarrow> Return () | Some m \<Rightarrow> Panicked m)"

text \<open>The closure \<open>httpSrvTask\<close> of \<open>addTaskHttpSrv\<close>; it ignores its context.\<close>

definition httpSrvTask :: "env \<Rightarrow> string \<Rightarrow> world \<Rightarrow> task_result \<times> world" where
  "httpSrvTask E httpSrvAddr w =
     (let w1 = emit (Log [LStr ''NewSafeAsyncTask'', LStr ''httpSrvTask'',
                          LStr ''httpSrvAddr'', LStr httpSrvAddr]) w;
          err = net_Listen E httpSrvAddr
      in case PanicIfErr err of
           Panicked m \<Rightarrow> (Panics m, w1)
         | Return u \<Rightarrow>
             (case httpSrv_Serve E of
                None \<Rightarrow> (Never_returns, w1)
              | Some err \<Rightarrow> (Exits err, w1)))"

text \<open>The closure \<open>grpcSrvTask\<close> of \<open>addTaskGRPCSrv\<close>; it ignores its context.\<close>

definition grpcSrvTask :: "env \<Rightarrow> string \<Rightarrow> world \<Rightarrow> task_result \<times> world" where
  "grpcSrvTask E grpcSrvAddr w =
     (let w1 = emit (Log [LStr ''NewSafeAsyncTask'', LStr ''grpcSrvTask'',
                          LStr ''grpcSrvAddr'', LStr grpcSrvAddr]) w;
          err = net_Listen E grpcSrvAddr
      in case PanicIfErr err of
           Panicked m \<Rightarrow> (Panics m, w1)
         | Return u \<Rightarrow>
             (let w2 = emit RegisterAddServer w1;
                  w3 = emit RegisterHealthServer w2
              in case grpcSrv_Serve E of
                   None \<Rightarrow> (Never_returns, w3)
                 | Some err \<Rightarrow> (Exits err, w3)))"

subsection \<open>The cleanup hooks\<close>

text \<open>The closure given to \<open>AddClean\<close> in \<open>addTaskHttpSrv\<close>.\<close>

definition httpSrvClean :: "env \<Rightarrow> goerror \<Rightarrow> world \<Rightarrow> world" where
  "httpSrvClean E err w =
     (if err = None then
        let w1 = emit (HttpShutdown (Second * 2)) w;
            err' = httpSrv_Shutdown E
        in emit (Log [LStr ''httpSrvTask'', LStr ''exited'', LStr ''clean'', LErr err']) w1
      else w)"

text \<open>The closure given to \<open>AddClean\<close> in \<open>addTaskGRPCSrv\<close>.\<close>

definition grpcSrvClean :: "goerror \<Rightarrow> world \<Rightarrow> world" where
  "grpcSrvClean err w =
     (if err = None then
        let w1 = emit GrpcGracefulStop w
        in emit (Log [LStr ''grpcSrvTask'', LStr ''exited'', LStr ''clean'', LNil]) w1
      else w)"

text \<open>The closure given to \<open>AddClean\<close> in \<open>addTaskSvcRegister\<close>.\<close>

definition svcRegisterClean :: "goerror \<Rightarrow> world \<Rightarrow> world" where
  "svcRegisterClean err w =
     (if err = None then
        let w1 = emit ConsulDeregister w
        in emit (Log [LStr ''SvcRegisterTask'', LStr ''exited'', LStr ''clean'', LNil]) w1
      else w)"

subsection \<open>How long a shutdown call blocks\<close>

text \<open>
  The contracts of the two library calls. \<open>drain\<close> is the time the server needs until
  its open connections, or pending RPCs, are finished; \<open>None\<close> means that they never
  finish. \<open>http.Server.Shutdown(ctx)\<close> returns when the connections are idle or when
  \<open>ctx\<close> expires, whichever is first; the hook passes a context that expires after the
  duration recorded in the effect. \<open>grpc.Server.GracefulStop()\<close> takes no context and
  blocks until all pending RPCs are finished. The result is the time after which the
  call returns, \<open>None\<close> when it never does. Every other effect takes no time.
\<close>

fun returns_after :: "nat option \<Rightarrow> effect \<Rightarrow> nat option" where
  "returns_after drain (HttpShutdown timeout) =
     (case drain of None \<Rightarrow> Some timeout | Some t \<Rightarrow> Some (min timeout t))"
| "returns_after drain GrpcGracefulStop = drain"
| "returns_after drain x = Some 0"

fun elapsed :: "nat option \<Rightarrow> effect list \<Rightarrow> nat option" where
  "elapsed drain [] = Some 0"
| "elapsed drain (x # xs) =
     (case returns_after drain x of
        None \<Rightarrow> None
      | Some t \<Rightarrow> (case elapsed drain xs of None \<Rightarrow> None | Some u \<Rightarrow> Some (t + u)))"

section \<open>The task supervisor\<close>

text \<open>
  The tasks that \<open>main\<close> hands to the supervisor are closures; each is named here by
  the place that builds it, with the values it captures: the inline signal listener,
  \<open>_util.ListenSignalTask\<close>, \<open>httpSrvTask\<close>, \<open>grpcSrvTask\<close> and
  \<open>internal.SvcRegisterTask\<close> (service name, host, port).
\<close>

datatype task =
    SignalTask
  | ListenSignalTask
  | HttpSrvTask string
  | GrpcSrvTask string
  | SvcRegisterTask string string goint

type_synonym cleanup = "goerror \<Rightarrow> world \<Rightarrow> world"

record registration =
  reg_do :: task
  reg_clean :: "cleanup option"

record SafeAsyncTask =
  sat_stop :: "goerror \<Rightarrow> world \<Rightarrow> world"
  sat_tasks :: "registration list"

text \<open>
  What a run of the supervisor did besides changing the world: the argument of every
  call of the stop callback, and the task index and argument of every cleanup hook
  call, both in the order of the calls.
\<close>

record history =
  stop_calls :: "goerror list"
  hook_calls :: "(nat \<times> goerror) list"

datatype status = Finished | Blocked

text \<open>
  Modelled from the spec: the supervisor \<open>_go.SafeAsyncTask\<close> (\<open>NewSafeAsyncTask\<close>,
  \<open>AddDo\<close>, \<open>AddClean\<close>, \<open>Run\<close>); the package \<open>go-util/_go\<close> is imported by \<open>main\<close>
  and its source is not part of the files at hand. The definitions follow the contract
  of the TaskSupervisor: \<open>AddDo\<close> appends a task without cleanup and returns a handle
  for \<open>AddClean\<close> on the same registration; a nil hook is no hook; of two hooks on one
  handle the last one wins.
\<close>

definition NewSafeAsyncTask :: "(goerror \<Rightarrow> world \<Rightarrow> world) \<Rightarrow> SafeAsyncTask" where
  "NewSafeAsyncTask stop = \<lparr>sat_stop = stop, sat_tasks = []\<rparr>"

text \<open>Modelled from the spec: \<open>AddDo\<close> of the supervisor; the handle is the index of the new registration.\<close>

definition AddDo :: "task \<Rightarrow> SafeAsyncTask \<Rightarrow> SafeAsyncTask \<times> nat" where
  "AddDo t ak =
     (ak\<lparr>sat_tasks := sat_tasks ak @ [\<lparr>reg_do = t, reg_clean = None\<rparr>]\<rparr>,
      length (sat_tasks ak))"

text \<open>Modelled from the spec: \<open>AddClean\<close> on the handle that \<open>AddDo\<close> returned.\<close>

definition AddClean :: "cleanup option \<Rightarrow> SafeAsyncTask \<times> nat \<Rightarrow> SafeAsyncTask" where
  "AddClean hook akh =
     (let (ak, h) = akh in
      if h < length (sat_tasks ak)
      then ak\<lparr>sat_tasks := (sat_tasks ak)[h := (sat_tasks ak ! h)\<lparr>reg_clean := hook\<rparr>]\<rparr>
      else ak)"

text \<open>
  Modelled from the spec: \<open>Run\<close>. The tasks run concurrently; what the supervisor
  observes of them is the sequence \<open>returns\<close> of (task index, exit error) in the order
  in which the run loops return. Entries for indices that are no task are dropped. A
  task without an entry never returns.
  \<^enum> With no task, \<open>Run\<close> returns at once and the stop callback is not called.
  \<^enum> \<open>Run\<close> waits for the first task to return; if none ever does, it stays blocked.
  \<^enum> It calls the stop callback with that task's error.
  \<^enum> It cancels the shared context.
  \<^enum> It waits for every task to return; if one never does, it stays blocked.
  \<^enum> It runs the cleanup hooks one at a time in reverse registration order, each with
    the exit error of its own task.
\<close>

definition call_stop :: "SafeAsyncTask \<Rightarrow> goerror \<Rightarrow> history \<times> world \<Rightarrow> history \<times> world" where
  "call_stop ak e hw =
     (let (h, w) = hw in (h\<lparr>stop_calls := stop_calls h @ [e]\<rparr>, sat_stop ak e w))"

text \<open>Modelled from the spec: one cleanup hook, called with the exit error of its own task.\<close>

definition run_clean :: "nat \<times> registration \<Rightarrow> goerror option \<Rightarrow> history \<times> world \<Rightarrow> history \<times> world" where
  "run_clean ir exit hw =
     (let (i, r) = ir; (h, w) = hw in
      case reg_clean r of
        None \<Rightarrow> (h, w)
      | Some hook \<Rightarrow>
          (case exit of
             None \<Rightarrow> (h, w)
           | Some e \<Rightarrow> (h\<lparr>hook_calls := hook_calls h @ [(i, e)]\<rparr>, hook e w)))"

text \<open>Modelled from the spec: the hooks one at a time, down the given list.\<close>

fun run_cleanups :: "(nat \<times> registration) list \<Rightarrow> (nat \<rightharpoonup> goerror) \<Rightarrow> history \<times> world \<Rightarrow> history \<times> world" where
  "run_cleanups [] exits hw = hw"
| "run_cleanups (ir # irs) exits hw = run_cleanups irs exits (run_clean ir (exits (fst ir)) hw)"

text \<open>Modelled from the spec: the returns of registered tasks, in the order they happen.\<close>

definition observed :: "SafeAsyncTask \<Rightarrow> (nat \<times> goerror) list \<Rightarrow> (nat \<times> goerror) list" where
  "observed ak returns = filter (\<lambda>(i, e). i < length (sat_tasks ak)) returns"

text \<open>Modelled from the spec: every registered task has returned.\<close>

definition all_returned :: "SafeAsyncTask \<Rightarrow> (nat \<times> goerror) list \<Rightarrow> bool" where
  "all_returned ak returns =
     list_all (\<lambda>i. map_of (observed ak returns) i \<noteq> None) [0..<length (sat_tasks ak)]"

text \<open>Modelled from the spec: \<open>Run\<close>, the six steps above.\<close>

definition Run :: "SafeAsyncTask \<Rightarrow> (nat \<times> goerror) list \<Rightarrow> world \<Rightarrow> status \<times> history \<times> world" where
  "Run ak returns w =
     (let h0 = \<lparr>stop_calls = [], hook_calls = []\<rparr> in
      if sat_tasks ak = [] then (Finished, h0, w)
      else
        case observed ak returns of
          [] \<Rightarrow> (Blocked, h0, w)
        | (k, e) # rest \<Rightarrow>
            let (h1, w1) = call_stop ak e (h0, w);
                w2 = cancelCtx w1
            in if all_returned ak returns
               then (Finished,
                     run_cleanups (rev (enumerate 0 (sat_tasks ak)))
                       (map_of (observed ak returns)) (h1, w2))
               else (Blocked, h1, w2))"

section \<open>package main: \<open>main\<close>\<close>

text \<open>
  \<open>main\<close> formats both listen addresses before \<open>flag.Parse()\<close>, so they carry the
  default ports; \<open>addTaskSvcRegister\<close> reads \<open>*grpcPort\<close> after parsing. The service
  name \<open>config.ServiceName\<close> is declared outside the files at hand and is a parameter.
\<close>

definition srvHost :: string where
  "srvHost = ''127.0.0.1111''"

definition grpcSrvAddr :: string where
  "grpcSrvAddr = srvHost @ '':8080''"

definition httpSrvAddr :: string where
  "httpSrvAddr = srvHost @ '':8081''"

definition addTaskListenSignal :: "SafeAsyncTask \<Rightarrow> (goerror \<Rightarrow> world \<Rightarrow> world) \<Rightarrow> SafeAsyncTask" where
  "addTaskListenSignal ak stop = AddClean None (AddDo ListenSignalTask ak)"

definition addTaskSvcRegister :: "string \<Rightarrow> SafeAsyncTask \<Rightarrow> string \<Rightarrow> goint \<Rightarrow> SafeAsyncTask" where
  "addTaskSvcRegister ServiceName ak host grpcPort =
     AddClean (Some svcRegisterClean) (AddDo (SvcRegisterTask ServiceName host grpcPort) ak)"

definition addTaskHttpSrv :: "env \<Rightarrow> SafeAsyncTask \<Rightarrow> string \<Rightarrow> SafeAsyncTask" where
  "addTaskHttpSrv E ak addr = AddClean (Some (httpSrvClean E)) (AddDo (HttpSrvTask addr) ak)"

definition addTaskGRPCSrv :: "SafeAsyncTask \<Rightarrow> string \<Rightarrow> SafeAsyncTask" where
  "addTaskGRPCSrv ak addr = AddClean (Some grpcSrvClean) (AddDo (GrpcSrvTask addr) ak)"

text \<open>The supervisor as \<open>main\<close> has set it up when it reaches \<open>ak.Run()\<close>.\<close>

definition main_registered :: "env \<Rightarrow> string \<Rightarrow> goint \<Rightarrow> SafeAsyncTask" where
  "main_registered E ServiceName grpcPort =
     (let ak = NewSafeAsyncTask stopAllTaskFunc;
          ak = fst (AddDo SignalTask ak);
          ak = addTaskListenSignal ak stopAllTaskFunc;
          ak = addTaskHttpSrv E ak httpSrvAddr;
          ak = addTaskGRPCSrv ak grpcSrvAddr;
          ak = addTaskSvcRegister ServiceName ak srvHost grpcPort
      in ak)"

definition main :: "env \<Rightarrow> string \<Rightarrow> goint \<Rightarrow> (nat \<times> goerror) list \<Rightarrow> status \<times> history \<times> world" where
  "main E ServiceName grpcPort returns =
     (let ak = main_registered E ServiceName grpcPort;
          w = emit (Log [LStr ''main'', LStr ''started'']) init_world
      in Run ak returns w)"

text \<open>The four kinds of background task that \<open>main\<close> registers.\<close>

datatype task_kind = Signal_listener | Http_server | Grpc_server | Registry_registration

fun kind_of :: "task \<Rightarrow> task_kind" where
  "kind_of SignalTask = Signal_listener"
| "kind_of ListenSignalTask = Signal_listener"
| "kind_of (HttpSrvTask addr) = Http_server"
| "kind_of (GrpcSrvTask addr) = Grpc_server"
| "kind_of (SvcRegisterTask name host port) = Registry_registration"

text \<open>An element occurs in a list before the first element with a given property.\<close>

definition occurs_before :: "'a \<Rightarrow> ('a \<Rightarrow> bool) \<Rightarrow> 'a list \<Rightarrow> bool" where
  "occurs_before a P xs = (a \<in> set (takeWhile (\<lambda>x. \<not> P x) xs))"

fun tears_down_transport :: "effect \<Rightarrow> bool" where
  "tears_down_transport (HttpShutdown t) = True"
| "tears_down_transport GrpcGracefulStop = True"
| "tears_down_transport x = False"

text \<open>An environment in which every call succeeds and both servers stop without error.\<close>

definition calm :: env where
  "calm = \<lparr>net_Listen = (\<lambda>a. None), httpSrv_Serve = Some None, grpcSrv_Serve = Some None,
           httpSrv_Shutdown = None\<rparr>"

section \<open>Properties\<close>

subsection \<open>The shared context and the stop callback\<close>

lemma effects_emit: "effects (emit x w) = effects w @ [x]"
  by (simp add: emit_def)

lemma emit_ctx:
  "ctx_done (emit x w) = ctx_done w"
  "ctx_transitions (emit x w) = ctx_transitions w"
  by (simp_all add: emit_def)

lemma cancelCtx_done: "ctx_done (cancelCtx w)"
  by (simp add: cancelCtx_def)

lemma cancelCtx_transitions:
  "ctx_transitions (cancelCtx w) =
     (if ctx_done w then ctx_transitions w else Suc (ctx_transitions w))"
  by (simp add: cancelCtx_def)

lemma cancelCtx_effects: "effects (cancelCtx w) = effects w"
  by (simp add: cancelCtx_def)

lemma cancelCtx_idem: "cancelCtx (cancelCtx w) = cancelCtx w"
  by (simp add: cancelCtx_def)

lemma cancelCtx_when_done: "ctx_done w \<Longrightarrow> cancelCtx w = w"
  by (simp add: cancelCtx_def)

lemma stopAllTaskFunc_ctx:
  "ctx_done (stopAllTaskFunc e w)"
  "ctx_transitions (stopAllTaskFunc e w) =
     (if ctx_done w then ctx_transitions w else Suc (ctx_transitions w))"
  by (simp_all add: stopAllTaskFunc_def cancelCtx_done cancelCtx_transitions emit_ctx)

lemma stopAllTaskFunc_effects:
  "effects (stopAllTaskFunc e w) = effects w @
     (if e \<noteq> None then [Log [LStr ''func'', LStr ''stopAllTaskFunc'', LStr ''err'', LErr e]]
      else [])"
  by (simp add: stopAllTaskFunc_def cancelCtx_effects effects_emit)

subsection \<open>The cleanup hooks\<close>

lemma hook_effects:
  "effects (httpSrvClean E e w) = effects w @
     (if e = None then [HttpShutdown (2 * Second),
        Log [LStr ''httpSrvTask'', LStr ''exited'', LStr ''clean'', LErr (httpSrv_Shutdown E)]]
      else [])"
  "effects (grpcSrvClean e w) = effects w @
     (if e = None then [GrpcGracefulStop,
        Log [LStr ''grpcSrvTask'', LStr ''exited'', LStr ''clean'', LNil]]
      else [])"
  "effects (svcRegisterClean e w) = effects w @
     (if e = None then [ConsulDeregister,
        Log [LStr ''SvcRegisterTask'', LStr ''exited'', LStr ''clean'', LNil]]
      else [])"
  by (simp_all add: httpSrvClean_def grpcSrvClean_def svcRegisterClean_def effects_emit Let_def)

lemma hook_ctx:
  "ctx_done (httpSrvClean E e w) = ctx_done w"
  "ctx_transitions (httpSrvClean E e w) = ctx_transitions w"
  "ctx_done (grpcSrvClean e w) = ctx_done w"
  "ctx_transitions (grpcSrvClean e w) = ctx_transitions w"
  "ctx_done (svcRegisterClean e w) = ctx_done w"
  "ctx_transitions (svcRegisterClean e w) = ctx_transitions w"
  by (simp_all add: httpSrvClean_def grpcSrvClean_def svcRegisterClean_def emit_ctx Let_def)

subsection \<open>The registrations of \<open>main\<close>\<close>

lemma main_registered_eq:
  "main_registered E n p =
     \<lparr>sat_stop = stopAllTaskFunc,
      sat_tasks =
        [\<lparr>reg_do = SignalTask, reg_clean = None\<rparr>,
         \<lparr>reg_do = ListenSignalTask, reg_clean = None\<rparr>,
         \<lparr>reg_do = HttpSrvTask httpSrvAddr, reg_clean = Some (httpSrvClean E)\<rparr>,
         \<lparr>reg_do = GrpcSrvTask grpcSrvAddr, reg_clean = Some grpcSrvClean\<rparr>,
         \<lparr>reg_do = SvcRegisterTask n srvHost p, reg_clean = Some svcRegisterClean\<rparr>]\<rparr>"
  by (simp add: main_registered_def addTaskListenSignal_def addTaskHttpSrv_def
      addTaskGRPCSrv_def addTaskSvcRegister_def AddDo_def AddClean_def NewSafeAsyncTask_def)

lemma main_tasks_length: "length (sat_tasks (main_registered E n p)) = 5"
  by (simp add: main_registered_eq)

subsection \<open>Running the cleanup hooks\<close>

lemma run_clean_stop_calls: "stop_calls (fst (run_clean ir x hw)) = stop_calls (fst hw)"
  by (cases ir; cases hw) (simp add: run_clean_def split: option.splits)

lemma run_cleanups_stop_calls: "stop_calls (fst (run_cleanups irs ex hw)) = stop_calls (fst hw)"
  by (induction irs arbitrary: hw) (simp_all add: run_clean_stop_calls)

text \<open>Hooks that leave the shared context alone leave it alone when run in sequence.\<close>

lemma run_clean_ctx:
  assumes "\<forall>hk. reg_clean (snd ir) = Some hk \<longrightarrow>
      (\<forall>e w. ctx_done (hk e w) = ctx_done w \<and> ctx_transitions (hk e w) = ctx_transitions w)"
  shows "ctx_done (snd (run_clean ir x hw)) = ctx_done (snd hw)
       \<and> ctx_transitions (snd (run_clean ir x hw)) = ctx_transitions (snd hw)"
  using assms by (cases ir; cases hw) (auto simp: run_clean_def split: option.splits)

lemma run_cleanups_ctx:
  assumes "\<forall>ir \<in> set irs. \<forall>hk. reg_clean (snd ir) = Some hk \<longrightarrow>
      (\<forall>e w. ctx_done (hk e w) = ctx_done w \<and> ctx_transitions (hk e w) = ctx_transitions w)"
  shows "ctx_done (snd (run_cleanups irs ex hw)) = ctx_done (snd hw)
       \<and> ctx_transitions (snd (run_cleanups irs ex hw)) = ctx_transitions (snd hw)"
  using assms
proof (induction irs arbitrary: hw)
  case Nil
  then show ?case by simp
next
  case (Cons ir irs)
  have "\<forall>hk. reg_clean (snd ir) = Some hk \<longrightarrow>
      (\<forall>e w. ctx_done (hk e w) = ctx_done w \<and> ctx_transitions (hk e w) = ctx_transitions w)"
    using Cons.prems by simp
  from run_clean_ctx [OF this] Cons show ?case by simp
qed

text \<open>
  When every listed task has returned, the hooks are called down the list, each with the
  exit error of its own index, and the world is the hooks folded over the list.
\<close>

lemma run_cleanups_exits:
  assumes "\<forall>ir \<in> set irs. ex (fst ir) = Some (exits (fst ir))"
  shows "run_cleanups irs ex (h, w) =
     (h\<lparr>hook_calls := hook_calls h @
          map (\<lambda>(i, r). (i, exits i)) (filter (\<lambda>(i, r). reg_clean r \<noteq> None) irs)\<rparr>,
      fold (\<lambda>(i, r). case reg_clean r of None \<Rightarrow> id | Some hk \<Rightarrow> hk (exits i)) irs w)"
  using assms
proof (induction irs arbitrary: h w)
  case Nil
  then show ?case by simp
next
  case (Cons ir irs)
  obtain i r where ir: "ir = (i, r)" by (cases ir)
  have ex: "ex i = Some (exits i)" using Cons.prems ir by simp
  have rest: "\<forall>ir \<in> set irs. ex (fst ir) = Some (exits (fst ir))" using Cons.prems by simp
  show ?case
  proof (cases "reg_clean r")
    case None
    then show ?thesis using Cons.IH [OF rest] ir by (simp add: run_clean_def)
  next
    case (Some hk)
    then show ?thesis using Cons.IH [OF rest] ir ex by (simp add: run_clean_def)
  qed
qed

subsection \<open>A run in which every task returns\<close>

lemma observed_nonempty:
  assumes "sat_tasks ak \<noteq> []"
    and "\<forall>i<length (sat_tasks ak). map_of (observed ak returns) i = Some (exits i)"
  shows "observed ak returns \<noteq> []"
proof
  assume "observed ak returns = []"
  moreover have "map_of (observed ak returns) 0 = Some (exits 0)" using assms by simp
  ultimately show False by simp
qed

lemma all_returned_iff:
  "all_returned ak returns \<longleftrightarrow>
     (\<forall>i<length (sat_tasks ak). map_of (observed ak returns) i \<noteq> None)"
  by (auto simp: all_returned_def list_all_iff)

lemma Run_all_returned:
  assumes "\<forall>i<length (sat_tasks ak). map_of (observed ak returns) i = Some (exits i)"
  shows "Run ak returns w =
     (Finished,
      \<lparr>stop_calls = (if sat_tasks ak = [] then [] else [snd (hd (observed ak returns))]),
       hook_calls = rev (map (\<lambda>(i, r). (i, exits i))
          (filter (\<lambda>(i, r). reg_clean r \<noteq> None) (enumerate 0 (sat_tasks ak))))\<rparr>,
      fold (\<lambda>(i, r). case reg_clean r of None \<Rightarrow> id | Some hk \<Rightarrow> hk (exits i))
        (rev (enumerate 0 (sat_tasks ak)))
        (if sat_tasks ak = [] then w
         else cancelCtx (sat_stop ak (snd (hd (observed ak returns))) w)))"
proof (cases "sat_tasks ak = []")
  case True
  then show ?thesis by (simp add: Run_def)
next
  case False
  from observed_nonempty [OF False assms] obtain k e rest
    where obs: "observed ak returns = (k, e) # rest"
    by (cases "observed ak returns") auto
  have all: "all_returned ak returns"
    using assms by (simp add: all_returned_iff)
  have ex: "\<forall>ir \<in> set (rev (enumerate 0 (sat_tasks ak))).
      map_of (observed ak returns) (fst ir) = Some (exits (fst ir))"
    using assms by (auto simp: in_set_enumerate_eq)
  have run: "Run ak returns w =
      (Finished, run_cleanups (rev (enumerate 0 (sat_tasks ak))) (map_of (observed ak returns))
         (\<lparr>stop_calls = [e], hook_calls = []\<rparr>, cancelCtx (sat_stop ak e w)))"
    using False all obs by (simp add: Run_def call_stop_def)
  show ?thesis
    unfolding run run_cleanups_exits [OF ex]
    using False by (simp add: obs rev_map rev_filter)
qed

lemma Run_not_all_returned:
  "\<not> all_returned ak returns \<Longrightarrow> hook_calls (fst (snd (Run ak returns w))) = []"
proof (cases "sat_tasks ak = []")
  case True
  then show ?thesis by (simp add: Run_def)
next
  case False
  assume nall: "\<not> all_returned ak returns"
  show ?thesis
  proof (cases "observed ak returns")
    case Nil
    then show ?thesis using False by (simp add: Run_def)
  next
    case (Cons ke rest)
    obtain k e where "ke = (k, e)" by (cases ke)
    then show ?thesis using False nall Cons by (simp add: Run_def call_stop_def)
  qed
qed

text \<open>The effects of a run of \<open>main\<close> in which all five tasks return.\<close>

lemma main_effects:
  assumes "\<forall>i<5. map_of (observed (main_registered E n p) returns) i = Some (exits i)"
  shows "effects (snd (snd (main E n p returns))) =
     Log [LStr ''main'', LStr ''started'']
     # (if snd (hd (observed (main_registered E n p) returns)) \<noteq> None
        then [Log [LStr ''func'', LStr ''stopAllTaskFunc'', LStr ''err'',
                   LErr (snd (hd (observed (main_registered E n p) returns)))]] else [])
     @ (if exits 4 = None then [ConsulDeregister,
          Log [LStr ''SvcRegisterTask'', LStr ''exited'', LStr ''clean'', LNil]] else [])
     @ (if exits 3 = None then [GrpcGracefulStop,
          Log [LStr ''grpcSrvTask'', LStr ''exited'', LStr ''clean'', LNil]] else [])
     @ (if exits 2 = None then [HttpShutdown (2 * Second),
          Log [LStr ''httpSrvTask'', LStr ''exited'', LStr ''clean'',
               LErr (httpSrv_Shutdown E)]] else [])"
proof -
  let ?ak = "main_registered E n p"
  have a: "\<forall>i<length (sat_tasks ?ak). map_of (observed ?ak returns) i = Some (exits i)"
    using assms by (simp add: main_tasks_length)
  have t: "sat_tasks ?ak =
        [\<lparr>reg_do = SignalTask, reg_clean = None\<rparr>,
         \<lparr>reg_do = ListenSignalTask, reg_clean = None\<rparr>,
         \<lparr>reg_do = HttpSrvTask httpSrvAddr, reg_clean = Some (httpSrvClean E)\<rparr>,
         \<lparr>reg_do = GrpcSrvTask grpcSrvAddr, reg_clean = Some grpcSrvClean\<rparr>,
         \<lparr>reg_do = SvcRegisterTask n srvHost p, reg_clean = Some svcRegisterClean\<rparr>]"
     and s: "sat_stop ?ak = stopAllTaskFunc"
    by (simp_all add: main_registered_eq)
  have n: "Suc (Suc 0) = 2" "Suc (Suc (Suc 0)) = 3" "Suc (Suc (Suc (Suc 0))) = 4"
    by simp_all
  show ?thesis
    unfolding main_def Let_def Run_all_returned [OF a]
    by (simp add: t s n hook_effects cancelCtx_effects stopAllTaskFunc_effects effects_emit
        init_world_def)
qed

subsection \<open>The signal listener\<close>

lemma listen_done:
  "foldl (listen_step elsewhere) (Returned r) hs = Returned r"
  "foldl (listen_step elsewhere) (Process_exits s) hs = Process_exits s"
  by (induction hs) simp_all

section \<open>The claims\<close>

text \<open>
  C1. In every supervisor run started by \<open>main\<close>, when task \<open>k\<close> is the first to return,
  with error \<open>e\<close>, the stop callback \<open>stopAllTaskFunc\<close> is called exactly once, with
  \<open>e\<close>, and the shared context goes from running to cancelled exactly once; this holds
  whether or not the other tasks ever return. The cancellation is the callback's own
  doing: the callback that \<open>main\<close> hands to the supervisor is \<open>stopAllTaskFunc\<close>, it
  logs a non-nil error and leaves the context done from any world, counting one
  transition exactly when the context was still running. Cancelling again has no
  effect: the supervisor's own cancellation after the callback changes nothing, so
  that the world in which the run waits for the remaining tasks is the one the callback
  left; nor does a further cancellation of the final world, or of any world that has
  been cancelled once.
\<close>

theorem first_failure_stops_once:
  assumes "observed (main_registered E n p) returns = (k, e) # rest"
  shows "stop_calls (fst (snd (main E n p returns))) = [e]
       \<and> ctx_done (snd (snd (main E n p returns)))
       \<and> ctx_transitions (snd (snd (main E n p returns))) = 1
       \<and> cancelCtx (snd (snd (main E n p returns))) = snd (snd (main E n p returns))
       \<and> cancelCtx (cancelCtx v) = cancelCtx v
       \<and> sat_stop (main_registered E n p) = stopAllTaskFunc
       \<and> ctx_done (stopAllTaskFunc e v)
       \<and> ctx_transitions (stopAllTaskFunc e v) =
           (if ctx_done v then ctx_transitions v else Suc (ctx_transitions v))
       \<and> effects (stopAllTaskFunc e v) = effects v @
           (if e = None then []
            else [Log [LStr ''func'', LStr ''stopAllTaskFunc'', LStr ''err'', LErr e]])
       \<and> cancelCtx (stopAllTaskFunc e v) = stopAllTaskFunc e v
       \<and> (if all_returned (main_registered E n p) returns
          then fst (main E n p returns) = Finished
          else main E n p returns =
            (Blocked, \<lparr>stop_calls = [e], hook_calls = []\<rparr>,
             stopAllTaskFunc e (emit (Log [LStr ''main'', LStr ''started'']) init_world)))"
proof -
  let ?ak = "main_registered E n p"
  let ?w = "emit (Log [LStr ''main'', LStr ''started'']) init_world"
  let ?w2 = "cancelCtx (stopAllTaskFunc e ?w)"
  let ?h1 = "\<lparr>stop_calls = [e], hook_calls = []\<rparr>"
  let ?fin = "run_cleanups (rev (enumerate 0 (sat_tasks ?ak))) (map_of (observed ?ak returns))
                (?h1, ?w2)"
  have stop: "sat_stop ?ak = stopAllTaskFunc" and ne: "sat_tasks ?ak \<noteq> []"
    by (simp_all add: main_registered_eq)
  have again: "\<And>u. cancelCtx (stopAllTaskFunc e u) = stopAllTaskFunc e u"
    by (simp add: cancelCtx_when_done stopAllTaskFunc_ctx)
  have whole: "main E n p returns =
      (if all_returned ?ak returns then (Finished, ?fin) else (Blocked, ?h1, ?w2))"
    using assms ne by (simp add: main_def Run_def call_stop_def stop)
  then have run: "snd (main E n p returns) =
      (if all_returned ?ak returns then ?fin else (?h1, ?w2))"
    by simp
  have w2: "ctx_done ?w2" "ctx_transitions ?w2 = 1"
    by (simp_all add: cancelCtx_done cancelCtx_transitions stopAllTaskFunc_ctx emit_ctx
        init_world_def)
  have hooks: "\<forall>ir \<in> set (rev (enumerate 0 (sat_tasks ?ak))).
      \<forall>hk. reg_clean (snd ir) = Some hk \<longrightarrow>
        (\<forall>e w. ctx_done (hk e w) = ctx_done w \<and> ctx_transitions (hk e w) = ctx_transitions w)"
    by (auto simp: main_registered_eq hook_ctx)
  have fin: "stop_calls (fst ?fin) = [e]" "ctx_done (snd ?fin)" "ctx_transitions (snd ?fin) = 1"
    using run_cleanups_stop_calls [of "rev (enumerate 0 (sat_tasks ?ak))"
        "map_of (observed ?ak returns)" "(?h1, ?w2)"]
      run_cleanups_ctx [OF hooks, of "map_of (observed ?ak returns)" "(?h1, ?w2)"] w2
    by simp_all
  have res: "stop_calls (fst (snd (main E n p returns))) = [e]"
    "ctx_done (snd (snd (main E n p returns)))"
    "ctx_transitions (snd (snd (main E n p returns))) = 1"
    using fin w2 by (simp_all add: run)
  have cb: "ctx_done (stopAllTaskFunc e v)"
    "ctx_transitions (stopAllTaskFunc e v) =
       (if ctx_done v then ctx_transitions v else Suc (ctx_transitions v))"
    "effects (stopAllTaskFunc e v) = effects v @
       (if e = None then []
        else [Log [LStr ''func'', LStr ''stopAllTaskFunc'', LStr ''err'', LErr e]])"
    by (simp_all add: stopAllTaskFunc_ctx stopAllTaskFunc_effects)
  have last: "if all_returned ?ak returns
      then fst (main E n p returns) = Finished
      else main E n p returns = (Blocked, ?h1, stopAllTaskFunc e ?w)"
    by (simp add: whole again)
  show ?thesis
    using res cb stop again [of v] last by (simp add: cancelCtx_idem cancelCtx_when_done)
qed

text \<open>
  The gRPC task fails first and only the signal listener follows: one call of the stop
  callback, with the gRPC error, and the run waits in the world the callback left, with
  the error logged and the context cancelled once.
\<close>

theorem first_failure_stops_once_witness:
  "main calm ''addsvc'' 8080
       [(3, Some ''accept tcp: use of closed network connection''), (0, None)]
     = (Blocked,
        \<lparr>stop_calls = [Some ''accept tcp: use of closed network connection''],
         hook_calls = []\<rparr>,
        \<lparr>ctx_done = True, ctx_transitions = 1,
         effects = [Log [LStr ''main'', LStr ''started''],
                    Log [LStr ''func'', LStr ''stopAllTaskFunc'', LStr ''err'',
                         LErr (Some ''accept tcp: use of closed network connection'')]]\<rparr>)
   \<and> ctx_transitions (snd (snd (main calm ''addsvc'' 8080
       [(3, Some ''accept tcp: use of closed network connection''), (0, None)]))) = 1"
  using first_failure_stops_once [of calm "''addsvc''" 8080
      "[(3, Some ''accept tcp: use of closed network connection''), (0, None)]"
      3 "Some ''accept tcp: use of closed network connection''" "[(0, None)]"
      "emit (Log [LStr ''main'', LStr ''started'']) init_world"]
  by (simp add: main_registered_eq observed_def all_returned_def eval_nat_numeral
      emit_def init_world_def world.equality)

text \<open>
  C2. For every supervisor and every run in which each task \<open>i\<close> has returned with exit
  error \<open>exits i\<close>, \<open>Run\<close> finishes, and the cleanup hooks that were registered are
  called one after the other in exactly the reverse of the registration order, each with
  the exit error of its own task: the calls are the registrations that have a hook,
  reversed, each paired with \<open>exits\<close> at its own index, and the final world is those
  hooks folded in that order over the world left by the stop callback and the
  cancellation. As long as some task has not returned, no hook is called.
\<close>

theorem cleanup_reverse_order:
  "((\<forall>i<length (sat_tasks ak). map_of (observed ak returns) i = Some (exits i)) \<longrightarrow>
      fst (Run ak returns w) = Finished
    \<and> hook_calls (fst (snd (Run ak returns w))) =
        rev (map (\<lambda>(i, r). (i, exits i))
          (filter (\<lambda>(i, r). reg_clean r \<noteq> None) (enumerate 0 (sat_tasks ak))))
    \<and> snd (snd (Run ak returns w)) =
        fold (\<lambda>(i, r). case reg_clean r of None \<Rightarrow> id | Some hk \<Rightarrow> hk (exits i))
          (rev (enumerate 0 (sat_tasks ak)))
          (if sat_tasks ak = [] then w
           else cancelCtx (sat_stop ak (snd (hd (observed ak returns))) w)))
   \<and> (\<not> all_returned ak returns \<longrightarrow> hook_calls (fst (snd (Run ak returns w))) = [])"
  using Run_all_returned [of ak returns exits w] Run_not_all_returned [of ak returns w]
  by simp

text \<open>
  The five registrations of \<open>main\<close>, the signal listener returning first and the HTTP
  task returning an error of its own: the hooks run for tasks 4, 3, 2 in that order, and
  the HTTP hook receives the HTTP error, not the signal error. With three tasks still
  running no hook is called.
\<close>

theorem cleanup_reverse_order_witness:
  "hook_calls (fst (snd (Run (main_registered calm ''addsvc'' 8080)
       [(0, Some ''recv-signal:interrupt''), (4, None), (2, Some ''http: Server closed''),
        (3, None), (1, None)] init_world)))
     = [(4, None), (3, None), (2, Some ''http: Server closed'')]
   \<and> hook_calls (fst (snd (Run (main_registered calm ''addsvc'' 8080)
       [(0, Some ''recv-signal:interrupt''), (4, None)] init_world))) = []"
  using cleanup_reverse_order [of "main_registered calm ''addsvc'' 8080"
      "[(0, Some ''recv-signal:interrupt''), (4, None), (2, Some ''http: Server closed''),
        (3, None), (1, None)]"
      "\<lambda>i. if i = 0 then Some ''recv-signal:interrupt''
           else if i = 2 then Some ''http: Server closed'' else None" init_world]
    cleanup_reverse_order [of "main_registered calm ''addsvc'' 8080"
      "[(0, Some ''recv-signal:interrupt''), (4, None)]" "\<lambda>i. None" init_world]
  by (simp add: main_registered_eq observed_def all_returned_def eval_nat_numeral All_less_Suc)

text \<open>
  C3. The inline signal listener is meant to block until SIGINT or SIGTERM arrives or
  the shared context is cancelled, to return a non-nil error describing the signal if
  the signal is first, and nil if the cancellation is first. Once it waits in the
  select it does: SIGINT gives the error \<open>recv-signal:interrupt\<close>, SIGTERM gives
  \<open>recv-signal:terminated\<close>, a cancellation gives nil, also one that happened before
  the select was reached, and whatever happens afterwards changes nothing. But the
  channel has no buffer: a SIGINT or SIGTERM that arrives after \<open>signal.Notify\<close> and
  before the select is dropped without a trace, the task stays blocked, and when the
  context is cancelled later the task returns nil although the signal came first. With
  no other subscription in the process, a SIGHUP ends the process while the task waits.
\<close>

theorem signal_before_select_is_lost:
  "signalTask elsewhere (Advance # Arrives SIGINT # Advance # hs)
     = signalTask elsewhere (Advance # Advance # hs)
   \<and> signalTask elsewhere (Advance # Arrives SIGTERM # Advance # hs)
     = signalTask elsewhere (Advance # Advance # hs)
   \<and> signalTask elsewhere [Advance, Arrives SIGTERM, Advance] = Running In_select False
   \<and> signalTask elsewhere [Advance, Arrives SIGTERM, Advance, Cancel] = Returned None
   \<and> signalTask elsewhere (Advance # Advance # Arrives SIGINT # hs)
     = Returned (Some ''recv-signal:interrupt'')
   \<and> signalTask elsewhere (Advance # Advance # Arrives SIGTERM # hs)
     = Returned (Some ''recv-signal:terminated'')
   \<and> signalTask elsewhere (Advance # Advance # Cancel # hs) = Returned None
   \<and> signalTask elsewhere (Advance # Cancel # Advance # hs) = Returned None
   \<and> signalTask elsewhere (Advance # Advance # Arrives SIGUSR1 # hs)
     = signalTask elsewhere (Advance # Advance # hs)
   \<and> signalTask elsewhere [Advance, Advance] = Running In_select False
   \<and> signalTask (\<lambda>s. False) (Advance # Advance # Arrives SIGHUP # hs) = Process_exits SIGHUP"
  by (simp add: signalTask_def notified_def listen_done)

text \<open>
  C4. The cleanup hook of the HTTP task calls \<open>httpSrv.Shutdown\<close>, and the cleanup hook
  of the gRPC task calls \<open>grpcSrv.GracefulStop\<close>, if and only if the error the hook
  receives (the one the task's run loop returned) is nil; with a non-nil error each hook
  leaves the world as it found it.
\<close>

theorem listener_clean_iff_nil:
  "(effects (httpSrvClean E err w) = effects w @
       [HttpShutdown (2 * Second),
        Log [LStr ''httpSrvTask'', LStr ''exited'', LStr ''clean'', LErr (httpSrv_Shutdown E)]]
      \<longleftrightarrow> err = None)
   \<and> (err \<noteq> None \<longrightarrow> httpSrvClean E err w = w)
   \<and> (effects (grpcSrvClean err w) = effects w @
       [GrpcGracefulStop, Log [LStr ''grpcSrvTask'', LStr ''exited'', LStr ''clean'', LNil]]
      \<longleftrightarrow> err = None)
   \<and> (err \<noteq> None \<longrightarrow> grpcSrvClean err w = w)"
  by (simp add: httpSrvClean_def grpcSrvClean_def effects_emit Let_def)

theorem listener_clean_iff_nil_witness:
  "httpSrvClean calm (Some ''accept failed'') init_world = init_world
   \<and> grpcSrvClean (Some ''accept failed'') init_world = init_world"
  using listener_clean_iff_nil [of calm "Some ''accept failed''" init_world]
  by simp

text \<open>
  The registration task itself returns an error (and so is the first to return): its
  cleanup hook runs, and neither the hook alone nor the whole run deregisters the
  instance.
\<close>

theorem deregister_skipped_counterexample:
  "ConsulDeregister \<notin> set (effects (snd (snd (main calm ''addsvc'' 8080
       [(4, Some ''consul: connection refused''), (0, None), (1, None), (2, None), (3, None)]))))
   \<and> ConsulDeregister \<notin>
       set (effects (svcRegisterClean (Some ''consul: connection refused'') init_world))"
proof -
  have "\<forall>i<5. map_of (observed (main_registered calm ''addsvc'' 8080)
       [(4, Some ''consul: connection refused''), (0, None), (1, None), (2, None), (3, None)]) i
      = Some ((\<lambda>i. if i = 4 then Some ''consul: connection refused'' else None) i)"
    by (simp add: main_registered_eq observed_def eval_nat_numeral All_less_Suc)
  from main_effects [OF this] show ?thesis
    by (simp add: hook_effects init_world_def)
qed

text \<open>
  C5, as amended. In every run of \<open>main\<close> in which all five tasks return, the cleanup
  hook of the registry-registration task is the first hook called, before the hooks of
  the gRPC and the HTTP task. The run deregisters the instance (\<open>ConsulDeregister\<close>) if
  and only if the registration task's own exit error is nil, and then the
  deregistration happens before any call that tears a transport down
  (\<open>grpcSrv.GracefulStop\<close>, \<open>httpSrv.Shutdown\<close>).
\<close>

theorem deregister_before_transport_teardown:
  assumes "\<forall>i<5. map_of (observed (main_registered E n p) returns) i = Some (exits i)"
  shows "fst (main E n p returns) = Finished
       \<and> hook_calls (fst (snd (main E n p returns))) = [(4, exits 4), (3, exits 3), (2, exits 2)]
       \<and> (ConsulDeregister \<in> set (effects (snd (snd (main E n p returns)))) \<longleftrightarrow> exits 4 = None)
       \<and> (exits 4 = None \<longrightarrow>
            occurs_before ConsulDeregister tears_down_transport
              (effects (snd (snd (main E n p returns)))))"
proof -
  let ?ak = "main_registered E n p"
  have a: "\<forall>i<length (sat_tasks ?ak). map_of (observed ?ak returns) i = Some (exits i)"
    using assms by (simp add: main_tasks_length)
  have n: "Suc (Suc 0) = 2" "Suc (Suc (Suc 0)) = 3" "Suc (Suc (Suc (Suc 0))) = 4"
    by simp_all
  have st: "fst (main E n p returns) = Finished"
    unfolding main_def Let_def Run_all_returned [OF a] by simp
  have hc: "hook_calls (fst (snd (main E n p returns))) = [(4, exits 4), (3, exits 3), (2, exits 2)]"
    unfolding main_def Let_def Run_all_returned [OF a] by (simp add: main_registered_eq n)
  have dereg: "ConsulDeregister \<in> set (effects (snd (snd (main E n p returns)))) \<longleftrightarrow> exits 4 = None"
    unfolding main_effects [OF assms] by simp
  have before: "exits 4 = None \<Longrightarrow>
      occurs_before ConsulDeregister tears_down_transport (effects (snd (snd (main E n p returns))))"
    unfolding main_effects [OF assms] occurs_before_def by simp
  show ?thesis using st hc dereg before by simp
qed

text \<open>
  A SIGTERM stops the process and every task then returns nil: the registry hook runs
  first and the deregistration precedes both transport shutdowns.
\<close>

theorem deregister_before_transport_teardown_witness:
  "hook_calls (fst (snd (main calm ''addsvc'' 8080
       [(0, Some ''recv-signal:terminated''), (1, None), (2, None), (3, None), (4, None)])))
     = [(4, None), (3, None), (2, None)]
   \<and> occurs_before ConsulDeregister tears_down_transport
       (effects (snd (snd (main calm ''addsvc'' 8080
         [(0, Some ''recv-signal:terminated''), (1, None), (2, None), (3, None), (4, None)]))))"
  using deregister_before_transport_teardown [of calm "''addsvc''" 8080
      "[(0, Some ''recv-signal:terminated''), (1, None), (2, None), (3, None), (4, None)]"
      "\<lambda>i. if i = 0 then Some ''recv-signal:terminated'' else None"]
  by (simp add: main_registered_eq observed_def eval_nat_numeral All_less_Suc)

text \<open>
  With a bind failure, neither listener task returns the error to its caller: both
  unwind with a panic.
\<close>

theorem bind_failure_not_returned_counterexample:
  "fst (httpSrvTask (calm\<lparr>net_Listen := (\<lambda>a. Some ''bind: address already in use'')\<rparr>)
        httpSrvAddr init_world) \<noteq> Exits (Some ''bind: address already in use'')
   \<and> fst (httpSrvTask (calm\<lparr>net_Listen := (\<lambda>a. Some ''bind: address already in use'')\<rparr>)
        httpSrvAddr init_world) = Panics ''bind: address already in use''
   \<and> fst (grpcSrvTask (calm\<lparr>net_Listen := (\<lambda>a. Some ''bind: address already in use'')\<rparr>)
        grpcSrvAddr init_world) = Panics ''bind: address already in use''"
  by (simp add: httpSrvTask_def grpcSrvTask_def PanicIfErr_def calm_def)

text \<open>
  C6, as amended. When \<open>net.Listen\<close> fails in the HTTP or the gRPC server task, the run
  function does not return: \<open>PanicIfErr\<close> panics with the bind error. A run function
  returns an error to the supervisor only after a successful bind, and that error is the
  one \<open>Serve\<close> returned; while \<open>Serve\<close> does not return, the task does not either.
\<close>

theorem bind_failure_panics:
  "(\<forall>m. net_Listen E addr = Some m \<longrightarrow>
       fst (httpSrvTask E addr w) = Panics m \<and> fst (grpcSrvTask E addr w) = Panics m)
   \<and> (net_Listen E addr = None \<longrightarrow>
       fst (httpSrvTask E addr w) =
         (case httpSrv_Serve E of None \<Rightarrow> Never_returns | Some err \<Rightarrow> Exits err)
     \<and> fst (grpcSrvTask E addr w) =
         (case grpcSrv_Serve E of None \<Rightarrow> Never_returns | Some err \<Rightarrow> Exits err))
   \<and> (\<forall>err. fst (httpSrvTask E addr w) = Exits err \<longrightarrow>
         net_Listen E addr = None \<and> httpSrv_Serve E = Some err)
   \<and> (\<forall>err. fst (grpcSrvTask E addr w) = Exits err \<longrightarrow>
         net_Listen E addr = None \<and> grpcSrv_Serve E = Some err)"
  by (cases "net_Listen E addr"; cases "httpSrv_Serve E"; cases "grpcSrv_Serve E")
     (simp_all add: httpSrvTask_def grpcSrvTask_def PanicIfErr_def Let_def)

theorem bind_failure_panics_witness:
  "fst (httpSrvTask (calm\<lparr>net_Listen := (\<lambda>a. Some ''bind: address already in use'')\<rparr>)
        httpSrvAddr init_world) = Panics ''bind: address already in use''
   \<and> fst (grpcSrvTask calm grpcSrvAddr init_world) = Exits None"
  using bind_failure_panics
      [of "calm\<lparr>net_Listen := (\<lambda>a. Some ''bind: address already in use'')\<rparr>"
        httpSrvAddr init_world]
    bind_failure_panics [of calm grpcSrvAddr init_world]
  by (simp add: calm_def)

text \<open>
  C7. The graceful-stop call of each listener task's cleanup is meant to be bounded by a
  timeout of a few seconds. The HTTP hook is: it returns after at most two seconds,
  whether the connections drain or not. The gRPC hook calls \<open>GracefulStop\<close> without any
  deadline: it takes as long as the pending RPCs take (an hour in the second line), and
  with an RPC that never finishes it never returns.
\<close>

theorem grpc_graceful_stop_unbounded:
  "elapsed None (effects (grpcSrvClean None init_world)) = None
   \<and> elapsed (Some (3600 * Second)) (effects (grpcSrvClean None init_world))
       = Some (3600 * Second)
   \<and> elapsed None (effects (httpSrvClean calm None init_world)) = Some (2 * Second)
   \<and> elapsed (Some (3600 * Second)) (effects (httpSrvClean calm None init_world))
       = Some (2 * Second)"
  by (simp add: hook_effects init_world_def Second_def)

text \<open>
  C8. \<open>main\<close> registers the background tasks in the fixed dependency order signal
  listener, HTTP server, gRPC server, registry registration: the kinds of the registered
  tasks, in registration order, are two signal listeners (the inline one and
  \<open>ListenSignalTask\<close>), then the HTTP server task, then the gRPC server task, then the
  registry-registration task, which is the last; taking a run of one kind once, this is
  the order of the claim. The signal listeners have no cleanup hook and the other three
  have one. \<open>main\<close> then runs the supervisor on exactly these registrations, and
  nothing is registered after that.
\<close>

theorem main_registration_order:
  "remdups_adj (map (\<lambda>r. kind_of (reg_do r)) (sat_tasks (main_registered E n p))) =
     [Signal_listener, Http_server, Grpc_server, Registry_registration]
   \<and> map (\<lambda>r. kind_of (reg_do r)) (sat_tasks (main_registered E n p)) =
     [Signal_listener, Signal_listener, Http_server, Grpc_server, Registry_registration]
   \<and> map reg_do (sat_tasks (main_registered E n p)) =
     [SignalTask, ListenSignalTask, HttpSrvTask ''127.0.0.1111:8081'',
      GrpcSrvTask ''127.0.0.1111:8080'', SvcRegisterTask n ''127.0.0.1111'' p]
   \<and> map (\<lambda>r. reg_clean r \<noteq> None) (sat_tasks (main_registered E n p)) =
     [False, False, True, True, True]
   \<and> main E n p returns =
       Run (main_registered E n p) returns
         (emit (Log [LStr ''main'', LStr ''started'']) init_world)"
  by (simp add: main_registered_eq main_def httpSrvAddr_def grpcSrvAddr_def srvHost_def)

text \<open>
  C9. \<open>Sum\<close> and \<open>Concat\<close> convert the endpoint's generic result by an unchecked type
  assertion. They return the response's \<open>V\<close> together with the endpoint's error exactly
  when the result has the concrete response type; for every other result, a nil result
  next to a non-nil error included, there is no fallback and the call panics.
\<close>

theorem endpoint_unchecked_assertion:
  fixes e :: "('ctx, 'x) AddSvcEndpoints"
  shows "(\<forall>v x err. SumEndpoint e ctx (SumRequestV a b) = (SumResponseV v x, err)
            \<longrightarrow> AddSvcEndpoints_Sum e ctx a b = Return (v, err))
       \<and> ((\<forall>v x. fst (SumEndpoint e ctx (SumRequestV a b)) \<noteq> SumResponseV v x)
            \<longrightarrow> (\<exists>m. AddSvcEndpoints_Sum e ctx a b = Panicked m))
       \<and> (\<forall>err. SumEndpoint e ctx (SumRequestV a b) = (NilV, err)
            \<longrightarrow> (\<exists>m. AddSvcEndpoints_Sum e ctx a b = Panicked m))
       \<and> (\<forall>v x err. ConcatEndpoint e ctx (ConcatRequestV s t) = (ConcatResponseV v x, err)
            \<longrightarrow> AddSvcEndpoints_Concat e ctx s t = Return (v, err))
       \<and> ((\<forall>v x. fst (ConcatEndpoint e ctx (ConcatRequestV s t)) \<noteq> ConcatResponseV v x)
            \<longrightarrow> (\<exists>m. AddSvcEndpoints_Concat e ctx s t = Panicked m))
       \<and> (\<forall>err. ConcatEndpoint e ctx (ConcatRequestV s t) = (NilV, err)
            \<longrightarrow> (\<exists>m. AddSvcEndpoints_Concat e ctx s t = Panicked m))"
proof -
  obtain r1 e1 where s: "SumEndpoint e ctx (SumRequestV a b) = (r1, e1)"
    by (cases "SumEndpoint e ctx (SumRequestV a b)")
  obtain r2 e2 where c: "ConcatEndpoint e ctx (ConcatRequestV s t) = (r2, e2)"
    by (cases "ConcatEndpoint e ctx (ConcatRequestV s t)")
  have "(\<forall>v x. r1 \<noteq> SumResponseV v x) \<longrightarrow> (\<exists>m. AddSvcEndpoints_Sum e ctx a b = Panicked m)"
    using s by (cases r1) (simp_all add: AddSvcEndpoints_Sum_def)
  moreover have "(\<forall>v x. r2 \<noteq> ConcatResponseV v x)
      \<longrightarrow> (\<exists>m. AddSvcEndpoints_Concat e ctx s t = Panicked m)"
    using c by (cases r2) (simp_all add: AddSvcEndpoints_Concat_def)
  ultimately show ?thesis
    using s c by (simp add: AddSvcEndpoints_Sum_def AddSvcEndpoints_Concat_def)
qed

text \<open>
  A failing endpoint that answers \<open>(nil, err)\<close> makes \<open>Concat\<close> panic; an endpoint that
  answers a \<open>SumResponse\<close> makes \<open>Sum\<close> return \<open>V\<close> and the error.
\<close>

theorem endpoint_unchecked_assertion_witness:
  "AddSvcEndpoints_Sum \<lparr>SumEndpoint = (\<lambda>c r. (SumResponseV 7 (), Some ''late'')),
        ConcatEndpoint = (\<lambda>c r. (NilV, Some ''circuit open''))\<rparr> () 3 4
     = Return (7, Some ''late'')
   \<and> (\<exists>m. AddSvcEndpoints_Concat \<lparr>SumEndpoint = (\<lambda>c r. (SumResponseV 7 (), Some ''late'')),
        ConcatEndpoint = (\<lambda>c r. (NilV, Some ''circuit open''))\<rparr> () ''a'' ''b''
     = Panicked m)"
  using endpoint_unchecked_assertion
    [of "\<lparr>SumEndpoint = (\<lambda>c r. (SumResponseV 7 (), Some ''late'')),
         ConcatEndpoint = (\<lambda>c r. (NilV, Some ''circuit open''))\<rparr>" "()" 3 4 "''a''" "''b''"]
  by simp

text \<open>
  C10. For every context and every pair of strings \<open>name\<close> and \<open>say\<close>,
  \<open>basicHelloService.SayHi\<close> returns the empty string as reply and a nil error: the
  unimplemented method succeeds with an empty result.
\<close>

theorem SayHi_empty_reply_nil_error: "SayHi ctx name say = ('''', None)"
  by (simp add: SayHi_def)

end
